theory Spec2Isabelle
  imports Complex_Main
begin

section \<open>Loading-condition planner: limits, persistence, editor and result views\<close>

text \<open>
  A shallow embedding of the parts of the loading-condition planner that its
  specification makes statements about: the limits configuration
  (\<^verbatim>\<open>config/limits.py\<close>), the condition file service
  (\<^verbatim>\<open>services/file_service.py\<close>), the condition editor
  (\<^verbatim>\<open>views/condition_editor_view.py\<close>), the condition table
  (\<^verbatim>\<open>views/condition_table_widget.py\<close>) and the results view
  (\<^verbatim>\<open>views/results_view.py\<close>).

  Python \<^verbatim>\<open>float\<close> values are idealised as \<^typ>\<open>real\<close>, Python
  \<^verbatim>\<open>int\<close> values are \<^typ>\<open>int\<close>, \<^verbatim>\<open>None\<close> is
  \<^term>\<open>None\<close>. Record fields carry a short prefix of their class, since HOL
  has one name space for all selectors.
\<close>

subsection \<open>Limits configuration (\<^verbatim>\<open>config/limits.py\<close>)\<close>

definition MIN_GM_M :: real where
  "MIN_GM_M = 0.15"

definition MIN_GM_LIVESTOCK_M :: real where
  "MIN_GM_LIVESTOCK_M = 0.20"

definition MAX_ROLL_PERIOD_S :: real where
  "MAX_ROLL_PERIOD_S = 15.0"

definition MIN_FREEBORD_M :: real where
  "MIN_FREEBORD_M = 0.3"

definition MASS_PER_HEAD_T :: real where
  "MASS_PER_HEAD_T = 0.5"

definition MAX_TRIM_FRACTION :: real where
  "MAX_TRIM_FRACTION = 0.02"

definition MAX_DRAFT_FRACTION :: real where
  "MAX_DRAFT_FRACTION = 1.05"

definition MAX_SWBM_FRACTION :: real where
  "MAX_SWBM_FRACTION = 1.0"

definition MIN_PROP_IMMERSION_PCT :: real where
  "MIN_PROP_IMMERSION_PCT = 60.0"

definition MIN_VISIBILITY_M :: real where
  "MIN_VISIBILITY_M = 1.0"

definition MIN_AIR_DRAFT_M :: real where
  "MIN_AIR_DRAFT_M = 5.0"

definition FREE_SURFACE_FACTOR :: real where
  "FREE_SURFACE_FACTOR = 0.5"


subsection \<open>Python values used by the sources\<close>

text \<open>
  A dictionary key as the sources meet it: an \<^verbatim>\<open>int\<close> (tank and pen ids) or a
  \<^verbatim>\<open>str\<close> (what a JSON object gives back). Python compares an int key and a
  string key as different keys.
\<close>

datatype pykey = KInt int | KStr string

text \<open>
  A \<^verbatim>\<open>dict\<close> in insertion order. \<open>dict_get\<close> is \<^verbatim>\<open>d.get(k, default)\<close>,
  \<open>dict_set\<close> is \<^verbatim>\<open>d[k] = v\<close> (an existing key keeps its place),
  \<open>dict_of_pairs\<close> is \<^verbatim>\<open>dict(pairs)\<close>.
\<close>

type_synonym ('k, 'v) pydict = "('k \<times> 'v) list"

fun dict_get :: "('k, 'v) pydict \<Rightarrow> 'k \<Rightarrow> 'v \<Rightarrow> 'v" where
  "dict_get [] k dflt = dflt"
| "dict_get ((k', v) # d) k dflt = (if k' = k then v else dict_get d k dflt)"

fun dict_set :: "('k, 'v) pydict \<Rightarrow> 'k \<Rightarrow> 'v \<Rightarrow> ('k, 'v) pydict" where
  "dict_set [] k v = [(k, v)]"
| "dict_set ((k', v') # d) k v =
     (if k' = k then (k', v) # d else (k', v') # dict_set d k v)"

definition dict_of_pairs :: "('k \<times> 'v) list \<Rightarrow> ('k, 'v) pydict" where
  "dict_of_pairs ps = fold (\<lambda>(k, v) d. dict_set d k v) ps []"

text \<open>\<^verbatim>\<open>x.id or -1\<close>: \<^verbatim>\<open>None\<close> and \<^verbatim>\<open>0\<close> are both falsy.\<close>

definition id_or_minus1 :: "int option \<Rightarrow> int" where
  "id_or_minus1 i = (case i of None \<Rightarrow> - 1 | Some n \<Rightarrow> if n = 0 then - 1 else n)"

text \<open>\<^verbatim>\<open>str(n)\<close> of an int: its decimal digits, with a minus sign when negative.\<close>

definition digit_char :: "nat \<Rightarrow> char" where
  "digit_char d = ''0123456789'' ! d"

function str_nat :: "nat \<Rightarrow> string" where
  "str_nat n =
     (if n < 10 then [digit_char n] else str_nat (n div 10) @ [digit_char (n mod 10)])"
  by pat_completeness auto
termination
  by (relation "measure id") auto

declare str_nat.simps [simp del]

definition py_str_int :: "int \<Rightarrow> string" where
  "py_str_int i = (if i < 0 then CHR ''-'' # str_nat (nat (- i)) else str_nat (nat i))"

text \<open>
  \<^verbatim>\<open>s.strip()\<close> and \<^verbatim>\<open>s.upper()\<close>. Text is a list of 8-bit characters, read
  as the code points U+0000 to U+00FF. The whitespace that \<^verbatim>\<open>strip\<close> removes is,
  in that range, U+0009 to U+000D, U+001C to U+0020, U+0085 and U+00A0. \<^verbatim>\<open>upper\<close>
  maps \<^verbatim>\<open>a\<close> to \<^verbatim>\<open>z\<close> and U+00E0 to U+00FE (the division sign U+00F7 apart) 32
  code points down, and U+00DF to \<^verbatim>\<open>SS\<close>. The upper cases of U+00B5 and U+00FF lie
  beyond U+00FF and are the upper case of no other character of the range, so these two
  are kept as they are: two texts have equal upper cases here exactly when they have in
  Python, which is all the sources use \<^verbatim>\<open>upper\<close> for.
\<close>

definition py_isspace :: "char \<Rightarrow> bool" where
  "py_isspace c =
     (let n = (of_char c :: nat)
      in (9 \<le> n \<and> n \<le> 13) \<or> (28 \<le> n \<and> n \<le> 32) \<or> n = 133 \<or> n = 160)"

definition py_upper_char :: "char \<Rightarrow> string" where
  "py_upper_char c =
     (let n = (of_char c :: nat)
      in if (97 \<le> n \<and> n \<le> 122) \<or> (224 \<le> n \<and> n \<le> 254 \<and> n \<noteq> 247)
         then [char_of (n - 32)]
         else if n = 223 then ''SS'' else [c])"

definition py_upper :: "string \<Rightarrow> string" where
  "py_upper s = concat (map py_upper_char s)"

definition py_strip :: "string \<Rightarrow> string" where
  "py_strip s = rev (dropWhile py_isspace (rev (dropWhile py_isspace s)))"

subsection \<open>Models (\<^verbatim>\<open>models/cargo.py\<close>, \<^verbatim>\<open>models/livestock_pen.py\<close>, tanks)\<close>



record LivestockPen =
  pen_id :: "int option"
  pen_ship_id :: "int option"
  pen_name :: string
  pen_deck :: string
  pen_vcg_m :: real
  pen_lcg_m :: real
  pen_tcg_m :: real
  pen_area_m2 :: real
  pen_capacity_head :: int

text \<open>
  A tank, with the fields \<^verbatim>\<open>TankRepository.list_for_ship\<close> fills in
  (\<^verbatim>\<open>repositories/tank_repository.py\<close>); the tank type is kept as its name.
  A tank has no density and no reference to a cargo.
\<close>

record Tank =
  tank_id :: "int option"
  tank_ship_id :: "int option"
  tank_name :: string
  tank_type :: string
  tank_capacity_m3 :: real
  tank_longitudinal_pos :: real
  tank_kg_m :: real
  tank_tcg_m :: real
  tank_lcg_m :: real

subsection \<open>Condition table (\<^verbatim>\<open>views/condition_table_widget.py\<close>)\<close>

text \<open>
  The module has a mass-per-head constant of its own. A table row is modelled by the
  numbers its cells are formatted from (the cells hold them rounded to two or three
  decimals).
\<close>

definition table_MASS_PER_HEAD_T :: real where
  "table_MASS_PER_HEAD_T = 0.5"

record livestock_row =
  lr_name :: string
  lr_heads :: int
  lr_head_pct :: real
  lr_head_capacity :: int
  lr_area_used :: real
  lr_total_area :: real
  lr_area_per_head :: real
  lr_avw_head :: real
  lr_weight_mt :: real
  lr_vcg :: real
  lr_lcg :: real
  lr_tcg :: real
  lr_lcg_moment :: real

record totals_row =
  tot_name :: string
  tot_area_used :: real
  tot_area :: real
  tot_weight :: real

record tank_row =
  tr_name :: string
  tr_fill_pct :: real
  tr_capacity :: real
  tr_weight_mt :: real
  tr_longitudinal_pos :: real

text \<open>The body of the loop over the pens of a deck in \<^verbatim>\<open>_populate_livestock_tab\<close>.\<close>

definition livestock_tab_row :: "(pykey, int) pydict \<Rightarrow> LivestockPen \<Rightarrow> livestock_row" where
  "livestock_tab_row pen_loadings pen =
     (let heads = dict_get pen_loadings (KInt (id_or_minus1 (pen_id pen))) 0;
          weight_mt = real_of_int heads * table_MASS_PER_HEAD_T;
          area_used = (if heads > 0 then pen_area_m2 pen else 0.0);
          head_pct = (if pen_capacity_head pen > 0
                      then real_of_int heads / real_of_int (pen_capacity_head pen) * 100.0
                      else 0.0);
          area_per_head = (if heads > 0 then pen_area_m2 pen / real_of_int heads else 0.0);
          lcg_moment = weight_mt * pen_lcg_m pen
      in \<lparr>lr_name = pen_name pen, lr_heads = heads, lr_head_pct = head_pct,
          lr_head_capacity = pen_capacity_head pen, lr_area_used = area_used,
          lr_total_area = pen_area_m2 pen, lr_area_per_head = area_per_head,
          lr_avw_head = table_MASS_PER_HEAD_T, lr_weight_mt = weight_mt,
          lr_vcg = pen_vcg_m pen, lr_lcg = pen_lcg_m pen, lr_tcg = pen_tcg_m pen,
          lr_lcg_moment = lcg_moment\<rparr>)"

text \<open>
  The loop itself, with its three running totals (weight, used area, area) and the
  rows inserted so far.
\<close>

fun livestock_loop ::
  "(pykey, int) pydict \<Rightarrow> LivestockPen list \<Rightarrow> livestock_row list \<times> real \<times> real \<times> real \<Rightarrow>
   livestock_row list \<times> real \<times> real \<times> real" where
  "livestock_loop pen_loadings [] acc = acc"
| "livestock_loop pen_loadings (pen # pens) (rows, total_weight, total_area_used, total_area) =
     (let r = livestock_tab_row pen_loadings pen
      in livestock_loop pen_loadings pens
           (rows @ [r], total_weight + lr_weight_mt r, total_area_used + lr_area_used r,
            total_area + pen_area_m2 pen))"

definition deck_pens :: "LivestockPen list \<Rightarrow> string \<Rightarrow> LivestockPen list" where
  "deck_pens pens deck_letter =
     filter (\<lambda>p. py_upper (py_strip (pen_deck p)) = py_upper deck_letter) pens"

definition populate_livestock_tab ::
  "LivestockPen list \<Rightarrow> (pykey, int) pydict \<Rightarrow> string \<Rightarrow> livestock_row list \<times> totals_row option" where
  "populate_livestock_tab pens pen_loadings deck_letter =
     (let dp = deck_pens pens deck_letter;
          (rows, total_weight, total_area_used, total_area) =
            livestock_loop pen_loadings dp ([], 0.0, 0.0, 0.0)
      in (rows,
          if dp \<noteq> []
          then Some \<lparr>tot_name = ''Livestock-DK'' @ deck_letter @ '' Totals'',
                     tot_area_used = total_area_used, tot_area = total_area,
                     tot_weight = total_weight\<rparr>
          else None))"

text \<open>The body of the loop over the tanks in \<^verbatim>\<open>_populate_tank_tabs\<close>.\<close>

definition tank_tab_row :: "(pykey, real) pydict \<Rightarrow> Tank \<Rightarrow> tank_row" where
  "tank_tab_row tank_volumes tank =
     (let vol = dict_get tank_volumes (KInt (id_or_minus1 (tank_id tank))) 0.0;
          fill_pct = (if tank_capacity_m3 tank > 0
                      then vol / tank_capacity_m3 tank * 100.0 else 0.0);
          weight_mt = vol * 1.025
      in \<lparr>tr_name = tank_name tank, tr_fill_pct = fill_pct,
          tr_capacity = tank_capacity_m3 tank, tr_weight_mt = weight_mt,
          tr_longitudinal_pos = tank_longitudinal_pos tank\<rparr>)"


text \<open>
  \<^verbatim>\<open>_populate_all_tab\<close>: the loaded pens, then the loaded tanks. A pen with no
  head and a tank with no volume get no row. Here the used-area cell of a pen shows
  the pen's whole area.
\<close>

datatype all_row = PenRow livestock_row | TankRow tank_row

definition all_tab_pen_row :: "(pykey, int) pydict \<Rightarrow> LivestockPen \<Rightarrow> livestock_row" where
  "all_tab_pen_row pen_loadings pen =
     (let heads = dict_get pen_loadings (KInt (id_or_minus1 (pen_id pen))) 0;
          weight_mt = real_of_int heads * table_MASS_PER_HEAD_T;
          head_pct = (if pen_capacity_head pen > 0
                      then real_of_int heads / real_of_int (pen_capacity_head pen) * 100.0
                      else 0.0);
          area_per_head = (if heads > 0 then pen_area_m2 pen / real_of_int heads else 0.0);
          lcg_moment = weight_mt * pen_lcg_m pen
      in \<lparr>lr_name = pen_name pen, lr_heads = heads, lr_head_pct = head_pct,
          lr_head_capacity = pen_capacity_head pen, lr_area_used = pen_area_m2 pen,
          lr_total_area = pen_area_m2 pen, lr_area_per_head = area_per_head,
          lr_avw_head = table_MASS_PER_HEAD_T, lr_weight_mt = weight_mt,
          lr_vcg = pen_vcg_m pen, lr_lcg = pen_lcg_m pen, lr_tcg = pen_tcg_m pen,
          lr_lcg_moment = lcg_moment\<rparr>)"

fun all_tab_pens :: "(pykey, int) pydict \<Rightarrow> LivestockPen list \<Rightarrow> all_row list" where
  "all_tab_pens pen_loadings [] = []"
| "all_tab_pens pen_loadings (pen # pens) =
     (if dict_get pen_loadings (KInt (id_or_minus1 (pen_id pen))) 0 = 0
      then all_tab_pens pen_loadings pens
      else PenRow (all_tab_pen_row pen_loadings pen) # all_tab_pens pen_loadings pens)"

fun all_tab_tanks :: "(pykey, real) pydict \<Rightarrow> Tank list \<Rightarrow> all_row list" where
  "all_tab_tanks tank_volumes [] = []"
| "all_tab_tanks tank_volumes (tank # tanks) =
     (if dict_get tank_volumes (KInt (id_or_minus1 (tank_id tank))) 0.0 = 0.0
      then all_tab_tanks tank_volumes tanks
      else TankRow (tank_tab_row tank_volumes tank) # all_tab_tanks tank_volumes tanks)"

definition populate_all_tab ::
  "LivestockPen list \<Rightarrow> Tank list \<Rightarrow> (pykey, int) pydict \<Rightarrow> (pykey, real) pydict \<Rightarrow> all_row list" where
  "populate_all_tab pens tanks pen_loadings tank_volumes =
     all_tab_pens pen_loadings pens @ all_tab_tanks tank_volumes tanks"

subsection \<open>Results view (\<^verbatim>\<open>views/results_view.py\<close>)\<close>

text \<open>
  The view probes its result object at run time: \<^verbatim>\<open>getattr(results, "draft_aft_m", d)\<close>
  and \<^verbatim>\<open>hasattr(criteria, "passed")\<close>. An attribute that may be absent is an
  \<^typ>\<open>'a option\<close> field, \<^term>\<open>None\<close> when the object does not carry it.
\<close>

record CriteriaReport =
  crit_passed :: "int option"
  crit_failed :: "int option"

record ConditionResults =
  res_displacement_t :: real
  res_draft_m :: real
  res_trim_m :: real
  res_gm_m :: real
  res_kg_m :: real
  res_km_m :: real
  res_draft_aft_m :: "real option"
  res_draft_fwd_m :: "real option"
  res_heel_deg :: "real option"
  res_criteria :: "CriteriaReport option"

text \<open>
  What \<^verbatim>\<open>update_results\<close> derives before formatting: the local variables
  \<^verbatim>\<open>draft_aft\<close>, \<^verbatim>\<open>draft_fwd\<close>, \<^verbatim>\<open>heel\<close> and \<^verbatim>\<open>crit_sum\<close>.
\<close>

record shown_results =
  draft_aft :: real
  draft_fwd :: real
  heel :: real
  crit_sum :: string

definition update_results :: "ConditionResults \<Rightarrow> shown_results" where
  "update_results results =
     \<lparr>draft_aft = (case res_draft_aft_m results of
                     Some d \<Rightarrow> d
                   | None \<Rightarrow> res_draft_m results + res_trim_m results / 2),
      draft_fwd = (case res_draft_fwd_m results of
                     Some d \<Rightarrow> d
                   | None \<Rightarrow> res_draft_m results - res_trim_m results / 2),
      heel = (case res_heel_deg results of Some h \<Rightarrow> h | None \<Rightarrow> 0.0),
      crit_sum = (case res_criteria results of
                    None \<Rightarrow> []
                  | Some criteria \<Rightarrow>
                      (case (crit_passed criteria, crit_failed criteria) of
                         (Some passed, Some failed) \<Rightarrow>
                           py_str_int passed @ '' passed, '' @ py_str_int failed @ '' failed''
                       | _ \<Rightarrow> []))\<rparr>"

subsection \<open>Loading conditions\<close>

text \<open>
  The fields of a \<^verbatim>\<open>LoadingCondition\<close> that the editor and the file service
  read and write.
\<close>

record LoadingCondition =
  cond_id :: "int option"
  voyage_id :: "int option"
  cond_name :: string
  tank_volumes_m3 :: "(pykey, real) pydict"
  pen_loadings :: "(pykey, int) pydict"
  displacement_t :: real
  draft_m :: real
  trim_m :: real
  gm_m :: real

subsection \<open>Condition editor (\<^verbatim>\<open>views/condition_editor_view.py\<close>)\<close>

text \<open>
  What \<^verbatim>\<open>float(text)\<close> can return: a finite number, an infinity or a NaN (the texts
  \<^verbatim>\<open>inf\<close> and \<^verbatim>\<open>nan\<close> parse). The parser itself is Python's and is a parameter
  \<open>py_float\<close> of the model: \<^term>\<open>None\<close> is its \<^verbatim>\<open>ValueError\<close>.
\<close>

datatype pyfloat = Fin real | PosInf | NegInf | NaN

fun pf_less :: "pyfloat \<Rightarrow> pyfloat \<Rightarrow> bool" where
  "pf_less NaN y = False"
| "pf_less x NaN = False"
| "pf_less (Fin a) (Fin b) = (a < b)"
| "pf_less x NegInf = False"
| "pf_less NegInf y = True"
| "pf_less PosInf y = False"
| "pf_less (Fin a) PosInf = True"

text \<open>
  The builtins \<^verbatim>\<open>min(a, b)\<close> and \<^verbatim>\<open>max(a, b)\<close>: the first argument is
  kept unless the second is strictly smaller (larger). Every comparison with a NaN is
  false.
\<close>

definition py_min :: "pyfloat \<Rightarrow> pyfloat \<Rightarrow> pyfloat" where
  "py_min a b = (if pf_less b a then b else a)"

definition py_max :: "pyfloat \<Rightarrow> pyfloat \<Rightarrow> pyfloat" where
  "py_max a b = (if pf_less a b then b else a)"

text \<open>\<^verbatim>\<open>fill_pct = max(0.0, min(100.0, fill_pct))\<close>\<close>

definition clamp_fill_pct :: "pyfloat \<Rightarrow> pyfloat" where
  "clamp_fill_pct fill_pct = py_max (Fin 0.0) (py_min (Fin 100.0) fill_pct)"

text \<open>The number a finite float stands for (the clamped percentage is always finite).\<close>

fun pf_value :: "pyfloat \<Rightarrow> real" where
  "pf_value (Fin r) = r"
| "pf_value x = 0"

text \<open>
  \<^verbatim>\<open>int(x)\<close> of a float truncates towards zero; it raises \<^verbatim>\<open>ValueError\<close> on a
  NaN and \<^verbatim>\<open>OverflowError\<close> on an infinity. The editor catches
  \<^verbatim>\<open>TypeError\<close> and \<^verbatim>\<open>ValueError\<close> only.
\<close>

datatype py_error = OverflowError

definition py_trunc :: "real \<Rightarrow> int" where
  "py_trunc r = (if r \<ge> 0 then \<lfloor>r\<rfloor> else \<lceil>r\<rceil>)"

text \<open>
  \<^verbatim>\<open>try: heads = int(float(text))  except (TypeError, ValueError): heads = 0\<close>
\<close>

definition parse_heads :: "(string \<Rightarrow> pyfloat option) \<Rightarrow> string \<Rightarrow> py_error + int" where
  "parse_heads py_float txt =
     (case py_float txt of
        None \<Rightarrow> Inr 0
      | Some (Fin r) \<Rightarrow> Inr (py_trunc r)
      | Some NaN \<Rightarrow> Inr 0
      | Some PosInf \<Rightarrow> Inl OverflowError
      | Some NegInf \<Rightarrow> Inl OverflowError)"

text \<open>
  \<^verbatim>\<open>try: fill_pct = float(text)  except (TypeError, ValueError): fill_pct = 0.0\<close>
\<close>

definition parse_fill_pct :: "(string \<Rightarrow> pyfloat option) \<Rightarrow> string \<Rightarrow> pyfloat" where
  "parse_fill_pct py_float txt = (case py_float txt of None \<Rightarrow> Fin 0.0 | Some x \<Rightarrow> x)"

text \<open>
  A table cell: its text and the id stored under \<^verbatim>\<open>Qt.ItemDataRole.UserRole\<close>.
  A row of the tank table is its cells in columns 0 and 2, a row of the pen table its
  cells in columns 0 and 3; a cell that was never set is \<^term>\<open>None\<close>.
\<close>

record table_item =
  item_text :: string
  item_user_data :: "int option"

record tank_table_row =
  tank_name_item :: "table_item option"
  tank_fill_item :: "table_item option"

record pen_table_row =
  pen_name_item :: "table_item option"
  pen_head_item :: "table_item option"

text \<open>\<^verbatim>\<open>tank_by_id = {t.id: t for t in tanks}\<close>\<close>

definition tank_by_id :: "Tank list \<Rightarrow> (int option \<rightharpoonup> Tank)" where
  "tank_by_id tanks = fold (\<lambda>t m. m(tank_id t \<mapsto> t)) tanks Map.empty"

text \<open>
  The loop over the rows of the tank table; \<^verbatim>\<open>_on_compute\<close> and
  \<^verbatim>\<open>_on_save_condition\<close> run the same loop.
\<close>

fun tank_volumes_loop ::
  "(string \<Rightarrow> pyfloat option) \<Rightarrow> (int option \<rightharpoonup> Tank) \<Rightarrow> tank_table_row list \<Rightarrow>
   (pykey, real) pydict \<Rightarrow> (pykey, real) pydict" where
  "tank_volumes_loop py_float by_id [] tank_volumes = tank_volumes"
| "tank_volumes_loop py_float by_id (row # rows) tank_volumes =
     (case (tank_name_item row, tank_fill_item row) of
        (Some name_item, Some fill_item) \<Rightarrow>
          (case item_user_data name_item of
             None \<Rightarrow> tank_volumes_loop py_float by_id rows tank_volumes
           | Some tid \<Rightarrow>
               (let fill_pct = clamp_fill_pct (parse_fill_pct py_float (item_text fill_item))
                in case by_id (Some tid) of
                     None \<Rightarrow> tank_volumes_loop py_float by_id rows tank_volumes
                   | Some tank \<Rightarrow>
                       (let vol = tank_capacity_m3 tank * (pf_value fill_pct / 100.0)
                        in tank_volumes_loop py_float by_id rows
                             (dict_set tank_volumes (KInt tid) vol))))
      | _ \<Rightarrow> tank_volumes_loop py_float by_id rows tank_volumes)"

text \<open>
  The loop over the rows of the pen table in \<^verbatim>\<open>_on_compute\<close>
  (\<^verbatim>\<open>heads = max(0, heads)\<close>, then \<^verbatim>\<open>if heads > 0\<close>).
\<close>

fun pen_loadings_loop_compute ::
  "(string \<Rightarrow> pyfloat option) \<Rightarrow> pen_table_row list \<Rightarrow> (pykey, int) pydict \<Rightarrow>
   py_error + (pykey, int) pydict" where
  "pen_loadings_loop_compute py_float [] loadings = Inr loadings"
| "pen_loadings_loop_compute py_float (row # rows) loadings =
     (case (pen_name_item row, pen_head_item row) of
        (Some name_item, Some head_item) \<Rightarrow>
          (case item_user_data name_item of
             None \<Rightarrow> pen_loadings_loop_compute py_float rows loadings
           | Some pid \<Rightarrow>
               (case parse_heads py_float (item_text head_item) of
                  Inl e \<Rightarrow> Inl e
                | Inr parsed \<Rightarrow>
                    (let heads = max 0 parsed
                     in if heads > 0
                        then pen_loadings_loop_compute py_float rows
                               (dict_set loadings (KInt pid) heads)
                        else pen_loadings_loop_compute py_float rows loadings)))
      | _ \<Rightarrow> pen_loadings_loop_compute py_float rows loadings)"

text \<open>The same loop in \<^verbatim>\<open>_on_save_condition\<close>, which has no \<^verbatim>\<open>max\<close>.\<close>

fun pen_loadings_loop_save ::
  "(string \<Rightarrow> pyfloat option) \<Rightarrow> pen_table_row list \<Rightarrow> (pykey, int) pydict \<Rightarrow>
   py_error + (pykey, int) pydict" where
  "pen_loadings_loop_save py_float [] loadings = Inr loadings"
| "pen_loadings_loop_save py_float (row # rows) loadings =
     (case (pen_name_item row, pen_head_item row) of
        (Some name_item, Some head_item) \<Rightarrow>
          (case item_user_data name_item of
             None \<Rightarrow> pen_loadings_loop_save py_float rows loadings
           | Some pid \<Rightarrow>
               (case parse_heads py_float (item_text head_item) of
                  Inl e \<Rightarrow> Inl e
                | Inr heads \<Rightarrow>
                    (if heads > 0
                     then pen_loadings_loop_save py_float rows
                            (dict_set loadings (KInt pid) heads)
                     else pen_loadings_loop_save py_float rows loadings)))
      | _ \<Rightarrow> pen_loadings_loop_save py_float rows loadings)"

text \<open>\<^verbatim>\<open>self._condition_name_edit.text().strip() or "Condition"\<close>\<close>

definition condition_name :: "string \<Rightarrow> string" where
  "condition_name txt = (if py_strip txt = [] then ''Condition'' else py_strip txt)"

text \<open>
  The condition \<^verbatim>\<open>_on_compute\<close> hands to the condition service and
  \<^verbatim>\<open>_on_save_condition\<close> builds before computing. \<open>blank\<close> stands for the
  dataclass defaults of the fields the editor does not set; \<open>tanks\<close> is what
  \<^verbatim>\<open>get_tanks_for_ship\<close> returned.
\<close>

definition on_compute_condition ::
  "(string \<Rightarrow> pyfloat option) \<Rightarrow> LoadingCondition \<Rightarrow> int option \<Rightarrow> int option \<Rightarrow> string \<Rightarrow>
   Tank list \<Rightarrow> tank_table_row list \<Rightarrow> pen_table_row list \<Rightarrow> py_error + LoadingCondition" where
  "on_compute_condition py_float blank current_id current_voyage name_text tanks tank_rows pen_rows =
     (let tank_volumes = tank_volumes_loop py_float (tank_by_id tanks) tank_rows []
      in case pen_loadings_loop_compute py_float pen_rows [] of
           Inl e \<Rightarrow> Inl e
         | Inr loadings \<Rightarrow>
             Inr (blank\<lparr>cond_id := current_id, voyage_id := current_voyage,
                        cond_name := condition_name name_text,
                        tank_volumes_m3 := tank_volumes, pen_loadings := loadings\<rparr>))"

definition on_save_condition ::
  "(string \<Rightarrow> pyfloat option) \<Rightarrow> LoadingCondition \<Rightarrow> int option \<Rightarrow> int \<Rightarrow> string \<Rightarrow>
   Tank list \<Rightarrow> tank_table_row list \<Rightarrow> pen_table_row list \<Rightarrow> py_error + LoadingCondition" where
  "on_save_condition py_float blank current_id current_voyage name_text tanks tank_rows pen_rows =
     (let tank_volumes = tank_volumes_loop py_float (tank_by_id tanks) tank_rows []
      in case pen_loadings_loop_save py_float pen_rows [] of
           Inl e \<Rightarrow> Inl e
         | Inr loadings \<Rightarrow>
             Inr (blank\<lparr>cond_id := current_id, voyage_id := Some current_voyage,
                        cond_name := condition_name name_text,
                        tank_volumes_m3 := tank_volumes, pen_loadings := loadings\<rparr>))"

subsection \<open>Condition files (\<^verbatim>\<open>services/file_service.py\<close>)\<close>

text \<open>
  The content of a condition file, as the JSON value that \<^verbatim>\<open>json.dump\<close> writes and
  \<^verbatim>\<open>json.load\<close> reads back. An object is the sequence of its members as written;
  a number is an int or a float, which Python's JSON codec tells apart.
\<close>

datatype json =
    JNull
  | JBool bool
  | JInt int
  | JReal real
  | JString string
  | JArray "json list"
  | JObject "(string \<times> json) list"

text \<open>
  JSON member names are strings: \<^verbatim>\<open>json.dump\<close> writes an int key of a dict as the
  string of its decimal digits, and a string key as it is.
\<close>

definition json_key :: "pykey \<Rightarrow> string" where
  "json_key k = (case k of KInt i \<Rightarrow> py_str_int i | KStr s \<Rightarrow> s)"

definition save_condition_to_file :: "LoadingCondition \<Rightarrow> json" where
  "save_condition_to_file condition =
     JObject
       [(''name'', JString (cond_name condition)),
        (''voyage_id'', (case voyage_id condition of None \<Rightarrow> JNull | Some v \<Rightarrow> JInt v)),
        (''tank_volumes_m3'',
           JObject (map (\<lambda>(k, v). (json_key k, JReal v)) (tank_volumes_m3 condition))),
        (''pen_loadings'',
           JObject (map (\<lambda>(k, n). (json_key k, JInt n)) (pen_loadings condition))),
        (''displacement_t'', JReal (displacement_t condition)),
        (''draft_m'', JReal (draft_m condition)),
        (''trim_m'', JReal (trim_m condition)),
        (''gm_m'', JReal (gm_m condition))]"

text \<open>
  \<^verbatim>\<open>json.load\<close> turns an object into a dict with string keys, a later member
  replacing an earlier one of the same name. \<^verbatim>\<open>load_condition_from_file\<close> then
  passes \<^verbatim>\<open>data.get(...)\<close> to the constructor unchanged; nothing converts a
  key or checks a type. A top-level value that is not an object has no
  \<^verbatim>\<open>get\<close> (\<open>AttributeError\<close>). Python would also store a value of any
  other JSON type in a field; the record has typed fields, so the model reports such a
  file as \<open>IllTyped\<close>.
\<close>

datatype load_error = AttributeError | IllTyped

definition as_number :: "json \<Rightarrow> real option" where
  "as_number j = (case j of JInt i \<Rightarrow> Some (real_of_int i) | JReal r \<Rightarrow> Some r | _ \<Rightarrow> None)"

fun number_members :: "(string \<times> json) list \<Rightarrow> (pykey \<times> real) list option" where
  "number_members [] = Some []"
| "number_members ((k, j) # ms) =
     (case (as_number j, number_members ms) of
        (Some r, Some rest) \<Rightarrow> Some ((KStr k, r) # rest)
      | _ \<Rightarrow> None)"

fun int_members :: "(string \<times> json) list \<Rightarrow> (pykey \<times> int) list option" where
  "int_members [] = Some []"
| "int_members ((k, j) # ms) =
     (case (j, int_members ms) of
        (JInt i, Some rest) \<Rightarrow> Some ((KStr k, i) # rest)
      | _ \<Rightarrow> None)"

definition load_voyage_id :: "(string, json) pydict \<Rightarrow> int option option" where
  "load_voyage_id data =
     (case map_of data ''voyage_id'' of
        None \<Rightarrow> Some None
      | Some JNull \<Rightarrow> Some None
      | Some (JInt i) \<Rightarrow> Some (Some i)
      | Some _ \<Rightarrow> None)"

definition load_name :: "(string, json) pydict \<Rightarrow> string option" where
  "load_name data =
     (case map_of data ''name'' of
        None \<Rightarrow> Some ''Loaded Condition''
      | Some (JString s) \<Rightarrow> Some s
      | Some _ \<Rightarrow> None)"

definition load_tank_volumes :: "(string, json) pydict \<Rightarrow> (pykey, real) pydict option" where
  "load_tank_volumes data =
     (case map_of data ''tank_volumes_m3'' of
        None \<Rightarrow> Some []
      | Some (JObject ms) \<Rightarrow> map_option dict_of_pairs (number_members ms)
      | Some _ \<Rightarrow> None)"

definition load_pen_loadings :: "(string, json) pydict \<Rightarrow> (pykey, int) pydict option" where
  "load_pen_loadings data =
     (case map_of data ''pen_loadings'' of
        None \<Rightarrow> Some []
      | Some (JObject ms) \<Rightarrow> map_option dict_of_pairs (int_members ms)
      | Some _ \<Rightarrow> None)"

definition load_number :: "(string, json) pydict \<Rightarrow> string \<Rightarrow> real option" where
  "load_number data key =
     (case map_of data key of None \<Rightarrow> Some 0.0 | Some j \<Rightarrow> as_number j)"

definition load_condition_from_file :: "json \<Rightarrow> load_error + LoadingCondition" where
  "load_condition_from_file file =
     (case file of
        JObject members \<Rightarrow>
          (let data = dict_of_pairs members
           in case
                Option.bind (load_voyage_id data) (\<lambda>voyage.
                Option.bind (load_name data) (\<lambda>name.
                Option.bind (load_tank_volumes data) (\<lambda>volumes.
                Option.bind (load_pen_loadings data) (\<lambda>loadings.
                Option.bind (load_number data ''displacement_t'') (\<lambda>displacement.
                Option.bind (load_number data ''draft_m'') (\<lambda>draft.
                Option.bind (load_number data ''trim_m'') (\<lambda>trim.
                Option.bind (load_number data ''gm_m'') (\<lambda>gm.
                  Some \<lparr>cond_id = None, voyage_id = voyage, cond_name = name,
                        tank_volumes_m3 = volumes, pen_loadings = loadings,
                        displacement_t = displacement, draft_m = draft,
                        trim_m = trim, gm_m = gm\<rparr>))))))))
              of None \<Rightarrow> Inl IllTyped | Some condition \<Rightarrow> Inr condition)
      | _ \<Rightarrow> Inl AttributeError)"

text \<open>A saved condition with one tank volume and one pen loading, keyed by int ids.\<close>

definition departure_condition :: LoadingCondition where
  "departure_condition =
     \<lparr>cond_id = Some 12, voyage_id = Some 3, cond_name = ''Departure'',
      tank_volumes_m3 = [(KInt 1, 250.5)], pen_loadings = [(KInt 7, 40)],
      displacement_t = 5200.0, draft_m = 6.1, trim_m = 0.4, gm_m = 1.2\<rparr>"

subsection \<open>Stability calculator\<close>

text \<open>
  Modelled from the spec: the stability calculator (\<^verbatim>\<open>compute_stability\<close> of the
  stability service, which the views import) is not among the sources. The spec: raw
  \<open>GM = KM - KG\<close>; for every tank whose fill fraction is strictly between 0 and 100%
  a fixed penalty \<open>FREE_SURFACE_FACTOR\<close> is subtracted from GM to obtain
  \<open>GM_effective\<close>; full or empty tanks contribute no correction. The constant is the
  one of \<^verbatim>\<open>config/limits.py\<close>. The fill percentage is taken as the views compute
  it (\<^verbatim>\<open>vol / capacity * 100\<close>, and 0 for a tank without capacity); a tank with no
  supplied volume is empty.
\<close>

definition supplied_volume :: "(pykey, real) pydict \<Rightarrow> Tank \<Rightarrow> real" where
  "supplied_volume tank_volumes tank =
     (case tank_id tank of None \<Rightarrow> 0 | Some i \<Rightarrow> dict_get tank_volumes (KInt i) 0)"

definition fill_percent :: "(pykey, real) pydict \<Rightarrow> Tank \<Rightarrow> real" where
  "fill_percent tank_volumes tank =
     (if tank_capacity_m3 tank > 0
      then supplied_volume tank_volumes tank / tank_capacity_m3 tank * 100 else 0)"

definition is_slack :: "(pykey, real) pydict \<Rightarrow> Tank \<Rightarrow> bool" where
  "is_slack tank_volumes tank =
     (0 < fill_percent tank_volumes tank \<and> fill_percent tank_volumes tank < 100)"

fun free_surface_corrected :: "(pykey, real) pydict \<Rightarrow> Tank list \<Rightarrow> real \<Rightarrow> real" where
  "free_surface_corrected tank_volumes [] gm = gm"
| "free_surface_corrected tank_volumes (tank # tanks) gm =
     free_surface_corrected tank_volumes tanks
       (if is_slack tank_volumes tank then gm - FREE_SURFACE_FACTOR else gm)"

definition compute_stability ::
  "real \<Rightarrow> real \<Rightarrow> (pykey, real) pydict \<Rightarrow> Tank list \<Rightarrow> real \<times> real" where
  "compute_stability km kg tank_volumes tanks =
     (let gm = km - kg in (gm, free_surface_corrected tank_volumes tanks gm))"

text \<open>
  Modelled from the spec: the number of slack tanks of a loading, the tanks whose fill
  fraction is strictly between 0 and 100%.
\<close>

definition slack_count :: "(pykey, real) pydict \<Rightarrow> Tank list \<Rightarrow> nat" where
  "slack_count tank_volumes tanks = length (filter (is_slack tank_volumes) tanks)"

subsection \<open>Criteria engine\<close>











subsection \<open>Lookups and example inputs\<close>

text \<open>
  The head count of a pen and the volume of a tank as the condition table looks them
  up: \<^verbatim>\<open>pen_loadings.get(pen.id or -1, 0)\<close> and
  \<^verbatim>\<open>tank_volumes.get(tank.id or -1, 0.0)\<close>.
\<close>

definition pen_heads :: "(pykey, int) pydict \<Rightarrow> LivestockPen \<Rightarrow> int" where
  "pen_heads loadings pen = dict_get loadings (KInt (id_or_minus1 (pen_id pen))) 0"

definition tank_vol :: "(pykey, real) pydict \<Rightarrow> Tank \<Rightarrow> real" where
  "tank_vol tank_volumes tank =
     dict_get tank_volumes (KInt (id_or_minus1 (tank_id tank))) 0"

definition pen_A1 :: LivestockPen where
  "pen_A1 =
     \<lparr>pen_id = Some 7, pen_ship_id = Some 1, pen_name = ''PEN 1-1'', pen_deck = ''A'',
      pen_vcg_m = 4.2, pen_lcg_m = 30.0, pen_tcg_m = 0.0, pen_area_m2 = 60.0,
      pen_capacity_head = 50\<rparr>"

definition pen_A2 :: LivestockPen where
  "pen_A2 =
     \<lparr>pen_id = Some 8, pen_ship_id = Some 1, pen_name = ''PEN 1-2'', pen_deck = ''A'',
      pen_vcg_m = 4.2, pen_lcg_m = 40.0, pen_tcg_m = 0.0, pen_area_m2 = 60.0,
      pen_capacity_head = 50\<rparr>"

definition tank_1 :: Tank where
  "tank_1 =
     \<lparr>tank_id = Some 1, tank_ship_id = Some 1, tank_name = ''HFO 1'', tank_type = ''FUEL'',
      tank_capacity_m3 = 200.0, tank_longitudinal_pos = 0.5, tank_kg_m = 1.0,
      tank_tcg_m = 0.0, tank_lcg_m = 50.0\<rparr>"


definition results_plain :: ConditionResults where
  "results_plain =
     \<lparr>res_displacement_t = 5200, res_draft_m = 6, res_trim_m = 1, res_gm_m = 1.2,
      res_kg_m = 7, res_km_m = 8.2, res_draft_aft_m = None, res_draft_fwd_m = None,
      res_heel_deg = None,
      res_criteria = Some \<lparr>crit_passed = Some 12, crit_failed = Some 3\<rparr>\<rparr>"


text \<open>
  The invariant of the pen loops: an entry of the loadings dict is keyed by the id of a
  row of the pen table whose head text parses to the entry's value, and the value is
  positive.
\<close>

definition heads_ok ::
  "(string \<Rightarrow> pyfloat option) \<Rightarrow> pen_table_row set \<Rightarrow> pykey \<times> int \<Rightarrow> bool" where
  "heads_ok py_float table kh =
     (case kh of
        (KInt pid, h) \<Rightarrow>
          0 < h \<and>
          (\<exists>row name_item head_item.
             row \<in> table \<and> pen_name_item row = Some name_item \<and>
             pen_head_item row = Some head_item \<and> item_user_data name_item = Some pid \<and>
             parse_heads py_float (item_text head_item) = Inr h)
      | (KStr s, h) \<Rightarrow> False)"

text \<open>Sample inputs of the editor: a blank condition, a parser that knows a few texts, table rows.\<close>

definition blank_condition :: LoadingCondition where
  "blank_condition =
     \<lparr>cond_id = None, voyage_id = None, cond_name = [], tank_volumes_m3 = [],
      pen_loadings = [], displacement_t = 0.0, draft_m = 0.0, trim_m = 0.0, gm_m = 0.0\<rparr>"

definition float_of_sample :: "string \<Rightarrow> pyfloat option" where
  "float_of_sample txt =
     (if txt = ''150'' then Some (Fin 150)
      else if txt = ''40.7'' then Some (Fin 40.7)
      else if txt = ''-3'' then Some (Fin (- 3))
      else if txt = ''nan'' then Some NaN
      else if txt = ''inf'' then Some PosInf
      else None)"


definition pen_cell :: "int \<Rightarrow> string \<Rightarrow> pen_table_row" where
  "pen_cell pid txt =
     \<lparr>pen_name_item = Some \<lparr>item_text = ''pen'', item_user_data = Some pid\<rparr>,
      pen_head_item = Some \<lparr>item_text = txt, item_user_data = None\<rparr>\<rparr>"




section \<open>Properties\<close>

subsection \<open>Default limits\<close>

text \<open>
  Claim C4. The named limit constants carry the default values of the canonical
  rule table: MIN_GM_M = 0.15, MIN_GM_LIVESTOCK_M = 0.20, MAX_ROLL_PERIOD_S = 15,
  MIN_FREEBORD_M = 0.3, MAX_TRIM_FRACTION = 0.02, MAX_DRAFT_FRACTION = 1.05,
  MAX_SWBM_FRACTION = 1.0, MIN_PROP_IMMERSION_PCT = 60, MIN_VISIBILITY_M = 1.0 and
  MIN_AIR_DRAFT_M = 5.0. The decimal fractions are stated as the rationals they
  denote.
\<close>

theorem limits_defaults:
  "MIN_GM_M = 15 / 100 \<and> MIN_GM_LIVESTOCK_M = 20 / 100 \<and> MAX_ROLL_PERIOD_S = 15 \<and>
   MIN_FREEBORD_M = 3 / 10 \<and> MAX_TRIM_FRACTION = 2 / 100 \<and>
   MAX_DRAFT_FRACTION = 105 / 100 \<and> MAX_SWBM_FRACTION = 1 \<and>
   MIN_PROP_IMMERSION_PCT = 60 \<and> MIN_VISIBILITY_M = 1 \<and> MIN_AIR_DRAFT_M = 5"
  by (simp add: MIN_GM_M_def MIN_GM_LIVESTOCK_M_def MAX_ROLL_PERIOD_S_def
      MIN_FREEBORD_M_def MAX_TRIM_FRACTION_def MAX_DRAFT_FRACTION_def
      MAX_SWBM_FRACTION_def MIN_PROP_IMMERSION_PCT_def MIN_VISIBILITY_M_def
      MIN_AIR_DRAFT_M_def)

subsection \<open>Condition table: weights\<close>

lemma livestock_loop_rows:
  "livestock_loop pl ps (rows, tw, tau, ta) =
     (rows @ map (livestock_tab_row pl) ps,
      tw + sum_list (map (\<lambda>p. lr_weight_mt (livestock_tab_row pl p)) ps),
      tau + sum_list (map (\<lambda>p. lr_area_used (livestock_tab_row pl p)) ps),
      ta + sum_list (map pen_area_m2 ps))"
  by (induction ps arbitrary: rows tw tau ta) (simp_all add: Let_def)

lemma livestock_tab_row_weight:
  "lr_weight_mt (livestock_tab_row pl pen) =
     real_of_int (pen_heads pl pen) * table_MASS_PER_HEAD_T"
  by (simp add: livestock_tab_row_def pen_heads_def Let_def)

lemma all_tab_pen_row_weight:
  "lr_weight_mt (all_tab_pen_row pl pen) =
     real_of_int (pen_heads pl pen) * table_MASS_PER_HEAD_T"
  by (simp add: all_tab_pen_row_def pen_heads_def Let_def)

lemma all_tab_pens_filter:
  "all_tab_pens pl pens =
     map (\<lambda>p. PenRow (all_tab_pen_row pl p)) (filter (\<lambda>p. pen_heads pl p \<noteq> 0) pens)"
  by (induction pens) (simp_all add: pen_heads_def)


text \<open>
  Claim C6. For every pen with head count \<open>h\<close>, the weight the condition table
  attributes to the pen is \<open>h\<close> times the mass-per-head constant, whose value is
  0.5 t/head (in the limits configuration and in the table module alike); a pen with
  zero heads weighs zero. This holds for the row of the pen in its deck tab and in the
  All tab; the deck tab has one row per pen of the deck and its totals row sums these
  weights; the All tab has a row for every pen with a head count other than zero.
\<close>

theorem pen_weight:
  "lr_weight_mt (livestock_tab_row pl pen) = real_of_int (pen_heads pl pen) * MASS_PER_HEAD_T \<and>
   lr_weight_mt (all_tab_pen_row pl pen) = real_of_int (pen_heads pl pen) * MASS_PER_HEAD_T \<and>
   MASS_PER_HEAD_T = 1 / 2 \<and> table_MASS_PER_HEAD_T = MASS_PER_HEAD_T \<and>
   (pen_heads pl pen = 0 \<longrightarrow> lr_weight_mt (livestock_tab_row pl pen) = 0) \<and>
   fst (populate_livestock_tab pens pl deck) = map (livestock_tab_row pl) (deck_pens pens deck) \<and>
   map_option tot_weight (snd (populate_livestock_tab pens pl deck)) =
     (if deck_pens pens deck = [] then None
      else Some (\<Sum>p\<leftarrow>deck_pens pens deck. real_of_int (pen_heads pl p) * MASS_PER_HEAD_T)) \<and>
   populate_all_tab pens tanks pl tv =
     map (\<lambda>p. PenRow (all_tab_pen_row pl p)) (filter (\<lambda>p. pen_heads pl p \<noteq> 0) pens) @
     all_tab_tanks tv tanks"
proof -
  have c: "table_MASS_PER_HEAD_T = MASS_PER_HEAD_T" "MASS_PER_HEAD_T = 1 / 2"
    by (simp_all add: table_MASS_PER_HEAD_T_def MASS_PER_HEAD_T_def)
  have rows: "fst (populate_livestock_tab pens pl deck) =
      map (livestock_tab_row pl) (deck_pens pens deck)"
    by (simp add: populate_livestock_tab_def Let_def livestock_loop_rows)
  have tot: "map_option tot_weight (snd (populate_livestock_tab pens pl deck)) =
     (if deck_pens pens deck = [] then None
      else Some (\<Sum>p\<leftarrow>deck_pens pens deck. real_of_int (pen_heads pl p) * MASS_PER_HEAD_T))"
    by (simp add: populate_livestock_tab_def Let_def livestock_loop_rows
        livestock_tab_row_weight c(1))
  show ?thesis
    using rows tot
    by (simp add: livestock_tab_row_weight all_tab_pen_row_weight c populate_all_tab_def
        all_tab_pens_filter)
qed

theorem pen_weight_witness:
  "pen_heads [(KInt 7, 40)] pen_A2 = 0 \<and>
   lr_weight_mt (livestock_tab_row [(KInt 7, 40)] pen_A2) = 0 \<and>
   lr_weight_mt (livestock_tab_row [(KInt 7, 40)] pen_A1) = 20"
proof -
  have h2: "pen_heads [(KInt 7, 40)] pen_A2 = 0"
    by (simp add: pen_heads_def pen_A2_def id_or_minus1_def)
  have h1: "pen_heads [(KInt 7, 40)] pen_A1 = 40"
    by (simp add: pen_heads_def pen_A1_def id_or_minus1_def)
  have m: "MASS_PER_HEAD_T = 1 / 2"
    by (simp add: MASS_PER_HEAD_T_def)
  have a: "lr_weight_mt (livestock_tab_row [(KInt 7, 40)] pen_A2) = 0"
    using pen_weight [of "[(KInt 7, 40)]" pen_A2 "[]" "[]" "[]" "[]"] h2 by blast
  have b: "lr_weight_mt (livestock_tab_row [(KInt 7, 40)] pen_A1) = 20"
    using pen_weight [of "[(KInt 7, 40)]" pen_A1 "[]" "[]" "[]" "[]"]
    by (simp only: h1 m) simp
  show ?thesis
    using h2 a b by blast
qed




subsection \<open>Results view\<close>

text \<open>
  Claim C7. For every computed result whose result object carries no
  \<open>draft_aft_m\<close> field, the aft draft presented is \<open>draft_m + trim_m / 2\<close>, and
  for every one that carries no \<open>draft_fwd_m\<close> field the forward draft presented is
  \<open>draft_m - trim_m / 2\<close> (the value the two-decimal text of the field is formatted
  from).
\<close>

theorem drafts_from_trim:
  "(res_draft_aft_m results = None \<longrightarrow>
      draft_aft (update_results results) = res_draft_m results + res_trim_m results / 2) \<and>
   (res_draft_fwd_m results = None \<longrightarrow>
      draft_fwd (update_results results) = res_draft_m results - res_trim_m results / 2)"
  by (simp add: update_results_def)

theorem drafts_from_trim_witness:
  "res_draft_aft_m results_plain = None \<and> res_draft_fwd_m results_plain = None \<and>
   draft_aft (update_results results_plain) = 6.5 \<and>
   draft_fwd (update_results results_plain) = 5.5"
proof -
  have n: "res_draft_aft_m results_plain = None" "res_draft_fwd_m results_plain = None"
    by (simp_all add: results_plain_def)
  have v: "res_draft_m results_plain = 6" "res_trim_m results_plain = 1"
    by (simp_all add: results_plain_def)
  show ?thesis
    using drafts_from_trim [of results_plain] n by (simp add: v)
qed

text \<open>
  Claim C8. For every criteria report that carries a passed and a failed count, the
  criteria summary rendered with the result is the decimal text of the passed count,
  then \<open>" passed, "\<close>, then the decimal text of the failed count, then
  \<open>" failed"\<close>.
\<close>

theorem criteria_summary_text:
  "res_criteria results = Some criteria \<Longrightarrow> crit_passed criteria = Some passed \<Longrightarrow>
   crit_failed criteria = Some failed \<Longrightarrow>
   crit_sum (update_results results) =
     py_str_int passed @ '' passed, '' @ py_str_int failed @ '' failed''"
  by (simp add: update_results_def)

lemma py_str_int_12: "py_str_int 12 = ''12''"
  by code_simp

lemma py_str_int_3: "py_str_int 3 = ''3''"
  by code_simp

theorem criteria_summary_text_witness:
  "res_criteria results_plain = Some \<lparr>crit_passed = Some 12, crit_failed = Some 3\<rparr> \<and>
   crit_sum (update_results results_plain) = ''12 passed, 3 failed''"
proof -
  have c: "res_criteria results_plain = Some \<lparr>crit_passed = Some 12, crit_failed = Some 3\<rparr>"
    by (simp add: results_plain_def)
  have "crit_sum (update_results results_plain) =
     py_str_int 12 @ '' passed, '' @ py_str_int 3 @ '' failed''"
    by (rule criteria_summary_text [OF c]) simp_all
  then show ?thesis
    using c by (simp add: py_str_int_12 py_str_int_3)
qed

subsection \<open>Condition editor\<close>

lemma clamp_cases:
  "clamp_fill_pct (Fin r) = Fin (max 0 (min 100 r))"
  "clamp_fill_pct NaN = Fin 100" "clamp_fill_pct PosInf = Fin 100" "clamp_fill_pct NegInf = Fin 0"
  by (simp_all add: clamp_fill_pct_def py_min_def py_max_def max_def min_def)


lemma clamp_value_bounds: "0 \<le> pf_value (clamp_fill_pct x) \<and> pf_value (clamp_fill_pct x) \<le> 100"
  by (cases x) (simp_all add: clamp_cases)

lemma dict_set_all:
  "list_all P d \<Longrightarrow> P (k, v) \<Longrightarrow> list_all P (dict_set d k v)"
  by (induction d) auto





lemma heads_ok_intro:
  "row \<in> table \<Longrightarrow> pen_name_item row = Some name_item \<Longrightarrow>
   pen_head_item row = Some head_item \<Longrightarrow> item_user_data name_item = Some pid \<Longrightarrow>
   parse_heads py_float (item_text head_item) = Inr h \<Longrightarrow> 0 < h \<Longrightarrow>
   heads_ok py_float table (KInt pid, h)"
  unfolding heads_ok_def by auto

lemma pen_loop_save_ok:
  "set rows \<subseteq> table \<Longrightarrow> list_all (heads_ok py_float table) acc \<Longrightarrow>
   pen_loadings_loop_save py_float rows acc = Inr d \<Longrightarrow>
   list_all (heads_ok py_float table) d"
proof (induction rows arbitrary: acc)
  case Nil
  then show ?case by simp
next
  case (Cons row rows)
  have sub: "set rows \<subseteq> table" and mem: "row \<in> table"
    using Cons.prems(1) by auto
  show ?case
  proof (cases "pen_name_item row")
    case None
    then show ?thesis using Cons.IH [OF sub Cons.prems(2)] Cons.prems(3) by simp
  next
    case (Some name_item)
    note ni = this
    show ?thesis
    proof (cases "pen_head_item row")
      case None
      then show ?thesis using Cons.IH [OF sub Cons.prems(2)] Cons.prems(3) ni by simp
    next
      case (Some head_item)
      note hi = this
      show ?thesis
      proof (cases "item_user_data name_item")
        case None
        then show ?thesis using Cons.IH [OF sub Cons.prems(2)] Cons.prems(3) ni hi by simp
      next
        case (Some pid)
        note pd = this
        show ?thesis
        proof (cases "parse_heads py_float (item_text head_item)")
          case (Inl e)
          then show ?thesis using Cons.prems(3) ni hi pd by simp
        next
          case (Inr h)
          show ?thesis
          proof (cases "0 < h")
            case True
            have "heads_ok py_float table (KInt pid, h)"
              using mem ni hi pd Inr True by (rule heads_ok_intro)
            then have "list_all (heads_ok py_float table) (dict_set acc (KInt pid) h)"
              using Cons.prems(2) by (rule dict_set_all [rotated])
            moreover have "pen_loadings_loop_save py_float rows (dict_set acc (KInt pid) h) = Inr d"
              using Cons.prems(3) ni hi pd Inr True by simp
            ultimately show ?thesis
              using Cons.IH [OF sub] by blast
          next
            case False
            then show ?thesis
              using Cons.IH [OF sub Cons.prems(2)] Cons.prems(3) ni hi pd Inr by simp
          qed
        qed
      qed
    qed
  qed
qed

lemma pen_loop_compute_ok:
  "set rows \<subseteq> table \<Longrightarrow> list_all (heads_ok py_float table) acc \<Longrightarrow>
   pen_loadings_loop_compute py_float rows acc = Inr d \<Longrightarrow>
   list_all (heads_ok py_float table) d"
proof (induction rows arbitrary: acc)
  case Nil
  then show ?case by simp
next
  case (Cons row rows)
  have sub: "set rows \<subseteq> table" and mem: "row \<in> table"
    using Cons.prems(1) by auto
  show ?case
  proof (cases "pen_name_item row")
    case None
    then show ?thesis using Cons.IH [OF sub Cons.prems(2)] Cons.prems(3) by simp
  next
    case (Some name_item)
    note ni = this
    show ?thesis
    proof (cases "pen_head_item row")
      case None
      then show ?thesis using Cons.IH [OF sub Cons.prems(2)] Cons.prems(3) ni by simp
    next
      case (Some head_item)
      note hi = this
      show ?thesis
      proof (cases "item_user_data name_item")
        case None
        then show ?thesis using Cons.IH [OF sub Cons.prems(2)] Cons.prems(3) ni hi by simp
      next
        case (Some pid)
        note pd = this
        show ?thesis
        proof (cases "parse_heads py_float (item_text head_item)")
          case (Inl e)
          then show ?thesis using Cons.prems(3) ni hi pd by simp
        next
          case (Inr h)
          show ?thesis
          proof (cases "0 < h")
            case True
            have "heads_ok py_float table (KInt pid, h)"
              using mem ni hi pd Inr True by (rule heads_ok_intro)
            then have "list_all (heads_ok py_float table) (dict_set acc (KInt pid) h)"
              using Cons.prems(2) by (rule dict_set_all [rotated])
            moreover have "pen_loadings_loop_compute py_float rows (dict_set acc (KInt pid) h) = Inr d"
            proof -
              have m: "max 0 h = h" using True by simp
              show ?thesis using Cons.prems(3) ni hi pd Inr True by (simp add: Let_def m)
            qed
            ultimately show ?thesis
              using Cons.IH [OF sub] by blast
          next
            case False
            then have m: "max 0 h = 0" by simp
            have "pen_loadings_loop_compute py_float rows acc = Inr d"
              using Cons.prems(3) ni hi pd Inr by (simp add: Let_def m)
            then show ?thesis
              using Cons.IH [OF sub Cons.prems(2)] by blast
          qed
        qed
      qed
    qed
  qed
qed

lemma single_pen_row_compute:
  "parse_heads py_float txt = Inr h \<Longrightarrow>
   pen_loadings_loop_compute py_float [pen_cell pid txt] [] =
     Inr (if 0 < h then [(KInt pid, h)] else [])"
  by (simp add: pen_cell_def Let_def max_def)

lemma single_pen_row_save:
  "parse_heads py_float txt = Inr h \<Longrightarrow>
   pen_loadings_loop_save py_float [pen_cell pid txt] [] =
     Inr (if 0 < h then [(KInt pid, h)] else [])"
  by (simp add: pen_cell_def)










lemma parse_heads_unparsable:
  "py_float txt = None \<or> py_float txt = Some NaN \<Longrightarrow> parse_heads py_float txt = Inr 0"
  by (auto simp: parse_heads_def)

text \<open>
  Claim C10. The \<open>pen_loadings\<close> dict of every condition built by the editor has an
  entry only for a pen whose parsed head count is strictly positive: every entry is
  keyed by the id of a row of the pen table whose head text parses to the entry's
  value, and that value is positive. Unparsable text counts as 0, and a row whose
  count is zero or negative produces no entry.
\<close>

theorem editor_pen_loadings_positive:
  assumes built:
    "on_compute_condition py_float blank cid voyage name_text tanks tank_rows pen_rows = Inr c \<or>
     on_save_condition py_float blank cid voyage' name_text tanks tank_rows pen_rows = Inr c"
    and entry: "(k, h) \<in> set (pen_loadings c)"
  shows "0 < h \<and>
         (\<exists>pid row name_item head_item.
            k = KInt pid \<and> row \<in> set pen_rows \<and> pen_name_item row = Some name_item \<and>
            pen_head_item row = Some head_item \<and> item_user_data name_item = Some pid \<and>
            parse_heads py_float (item_text head_item) = Inr h) \<and>
         (py_float txt = None \<or> py_float txt = Some NaN \<longrightarrow>
            parse_heads py_float txt = Inr 0) \<and>
         (parse_heads py_float txt = Inr n \<and> n \<le> 0 \<longrightarrow>
            pen_loadings_loop_compute py_float [pen_cell qid txt] [] = Inr [] \<and>
            pen_loadings_loop_save py_float [pen_cell qid txt] [] = Inr [])"
proof -
  have "pen_loadings_loop_compute py_float pen_rows [] = Inr (pen_loadings c) \<or>
        pen_loadings_loop_save py_float pen_rows [] = Inr (pen_loadings c)"
    using built
    by (auto simp: on_compute_condition_def on_save_condition_def Let_def split: sum.splits)
  then have "list_all (heads_ok py_float (set pen_rows)) (pen_loadings c)"
  proof
    assume "pen_loadings_loop_compute py_float pen_rows [] = Inr (pen_loadings c)"
    then show ?thesis
      using pen_loop_compute_ok [of pen_rows "set pen_rows" py_float "[]" "pen_loadings c"]
      by simp
  next
    assume "pen_loadings_loop_save py_float pen_rows [] = Inr (pen_loadings c)"
    then show ?thesis
      using pen_loop_save_ok [of pen_rows "set pen_rows" py_float "[]" "pen_loadings c"]
      by simp
  qed
  then have ok: "heads_ok py_float (set pen_rows) (k, h)"
    using entry by (simp add: list_all_iff)
  have first: "0 < h"
    using ok by (cases k) (simp_all add: heads_ok_def)
  have second: "\<exists>pid row name_item head_item.
            k = KInt pid \<and> row \<in> set pen_rows \<and> pen_name_item row = Some name_item \<and>
            pen_head_item row = Some head_item \<and> item_user_data name_item = Some pid \<and>
            parse_heads py_float (item_text head_item) = Inr h"
    using ok by (cases k) (auto simp: heads_ok_def)
  have third: "py_float txt = None \<or> py_float txt = Some NaN \<longrightarrow>
            parse_heads py_float txt = Inr 0"
    using parse_heads_unparsable by blast
  have fourth: "parse_heads py_float txt = Inr n \<and> n \<le> 0 \<longrightarrow>
            pen_loadings_loop_compute py_float [pen_cell qid txt] [] = Inr [] \<and>
            pen_loadings_loop_save py_float [pen_cell qid txt] [] = Inr []"
    using single_pen_row_compute [of py_float "txt" n qid]
      single_pen_row_save [of py_float "txt" n qid]
    by (simp del: pen_loadings_loop_compute.simps pen_loadings_loop_save.simps)
  show ?thesis
    using first second third fourth by blast
qed


lemma sample_heads_40: "parse_heads float_of_sample ''40.7'' = Inr 40"
  by (simp add: parse_heads_def float_of_sample_def py_trunc_def)

lemma sample_heads_neg: "parse_heads float_of_sample ''-3'' = Inr (- 3)"
  by (simp add: parse_heads_def float_of_sample_def py_trunc_def)

lemma sample_heads_word: "float_of_sample ''many'' = None"
  by (simp add: float_of_sample_def)

lemma sample_save:
  "on_save_condition float_of_sample blank_condition None 3 [] []
     [] [pen_cell 7 ''40.7'', pen_cell 8 ''-3'', pen_cell 9 ''many''] =
   Inr (blank_condition\<lparr>cond_id := None, voyage_id := Some 3, cond_name := condition_name [],
          tank_volumes_m3 := [], pen_loadings := [(KInt 7, 40)]\<rparr>)"
proof -
  have w: "parse_heads float_of_sample ''many'' = Inr 0"
    by (simp add: parse_heads_def sample_heads_word)
  have "pen_loadings_loop_save float_of_sample
          [pen_cell 7 ''40.7'', pen_cell 8 ''-3'', pen_cell 9 ''many''] [] = Inr [(KInt 7, 40)]"
    by (simp add: pen_cell_def sample_heads_40 sample_heads_neg w)
  then show ?thesis
    by (simp add: on_save_condition_def)
qed

theorem editor_pen_loadings_positive_witness:
  "on_save_condition float_of_sample blank_condition None 3 [] []
     [] [pen_cell 7 ''40.7'', pen_cell 8 ''-3'', pen_cell 9 ''many''] =
   Inr (blank_condition\<lparr>cond_id := None, voyage_id := Some 3, cond_name := condition_name [],
          tank_volumes_m3 := [], pen_loadings := [(KInt 7, 40)]\<rparr>) \<and>
   (0::int) < 40 \<and>
   float_of_sample ''many'' = None \<and> parse_heads float_of_sample ''many'' = Inr 0 \<and>
   parse_heads float_of_sample ''-3'' = Inr (- 3) \<and>
   pen_loadings_loop_compute float_of_sample [pen_cell 8 ''-3''] [] = Inr [] \<and>
   pen_loadings_loop_save float_of_sample [pen_cell 8 ''-3''] [] = Inr []"
proof -
  let ?rows = "[pen_cell 7 ''40.7'', pen_cell 8 ''-3'', pen_cell 9 ''many'']"
  let ?c = "blank_condition\<lparr>cond_id := None, voyage_id := Some 3, cond_name := condition_name [],
          tank_volumes_m3 := [], pen_loadings := [(KInt 7, 40)]\<rparr>"
  have built: "on_compute_condition float_of_sample blank_condition None None [] [] [] ?rows = Inr ?c \<or>
     on_save_condition float_of_sample blank_condition None 3 [] [] [] ?rows = Inr ?c"
    using sample_save by blast
  have entry: "(KInt 7, 40) \<in> set (pen_loadings ?c)"
    by simp
  note th1 = editor_pen_loadings_positive [OF built entry, of "''many''" 0 8]
  note th2 = editor_pen_loadings_positive [OF built entry, of "''-3''" "- 3" 8]
  have a: "(0::int) < 40" using th1 by blast
  have b: "parse_heads float_of_sample ''many'' = Inr 0"
    using th1 sample_heads_word by blast
  have neg: "parse_heads float_of_sample ''-3'' = Inr (- 3) \<and> (- 3::int) \<le> 0"
    by (simp add: sample_heads_neg)
  have c: "pen_loadings_loop_compute float_of_sample [pen_cell 8 ''-3''] [] = Inr [] \<and>
     pen_loadings_loop_save float_of_sample [pen_cell 8 ''-3''] [] = Inr []"
    using th2 neg by blast
  show ?thesis
    using sample_save a b c sample_heads_word sample_heads_neg by blast
qed

subsection \<open>Condition files\<close>

text \<open>
  What loading a saved condition gives back: the same name, voyage, numbers and
  values, a fresh id, and both dicts keyed by the strings that \<^verbatim>\<open>json.dump\<close> wrote
  for their keys.
\<close>

lemma py_str_int_1: "py_str_int 1 = ''1''"
  by code_simp

lemma py_str_int_7: "py_str_int 7 = ''7''"
  by code_simp

lemma number_members_saved:
  "number_members (map (\<lambda>(k, v). (json_key k, JReal v)) d) =
     Some (map (\<lambda>(k, v). (KStr (json_key k), v)) d)"
  by (induction d) (auto simp: as_number_def)

lemma int_members_saved:
  "int_members (map (\<lambda>(k, n). (json_key k, JInt n)) d) =
     Some (map (\<lambda>(k, n). (KStr (json_key k), n)) d)"
  by (induction d) auto

lemma saved_data:
  "dict_of_pairs
     [(''name'', a), (''voyage_id'', b), (''tank_volumes_m3'', c), (''pen_loadings'', d),
      (''displacement_t'', e), (''draft_m'', f), (''trim_m'', g), (''gm_m'', h)] =
     [(''name'', a), (''voyage_id'', b), (''tank_volumes_m3'', c), (''pen_loadings'', d),
      (''displacement_t'', e), (''draft_m'', f), (''trim_m'', g), (''gm_m'', h)]"
  by (simp add: dict_of_pairs_def)

lemma save_then_load:
  "load_condition_from_file (save_condition_to_file c) =
     Inr (c\<lparr>cond_id := None,
            tank_volumes_m3 :=
              dict_of_pairs (map (\<lambda>(k, v). (KStr (json_key k), v)) (tank_volumes_m3 c)),
            pen_loadings :=
              dict_of_pairs (map (\<lambda>(k, n). (KStr (json_key k), n)) (pen_loadings c))\<rparr>)"
  unfolding save_condition_to_file_def load_condition_from_file_def
  by (cases "voyage_id c")
     (simp_all add: saved_data Let_def load_voyage_id_def load_name_def load_tank_volumes_def
       load_pen_loadings_def load_number_def as_number_def number_members_saved
       int_members_saved)

lemma dict_set_keys: "fst ` set (dict_set d k v) = insert k (fst ` set d)"
  by (induction d k v rule: dict_set.induct) (simp_all add: insert_commute)

lemma fold_dict_set_keys:
  "fst ` set (fold (\<lambda>(k, v) d. dict_set d k v) ps d0) = fst ` set ps \<union> fst ` set d0"
  by (induction ps arbitrary: d0) (auto simp: dict_set_keys split: prod.splits)

lemma dict_of_pairs_keys: "fst ` set (dict_of_pairs ps) = fst ` set ps"
  by (simp add: dict_of_pairs_def fold_dict_set_keys)

lemma dict_get_absent: "k \<notin> fst ` set d \<Longrightarrow> dict_get d k dflt = dflt"
  by (induction d) auto

lemma loaded_keys_are_strings:
  "KInt i \<notin> fst ` set (dict_of_pairs (map (\<lambda>(k, v). (KStr (json_key k), v)) d))"
  by (auto simp: dict_of_pairs_keys)

text \<open>
  Claim C1. Saving a condition and loading the file again should give back the same
  \<open>tank_volumes_m3\<close>, \<open>pen_loadings\<close>, name and voyage id, the int keys of both
  dicts included. It does not: the condition \<open>departure_condition\<close>, with tank volumes
  \<^verbatim>\<open>{1: 250.5}\<close> and pen loadings \<^verbatim>\<open>{7: 40}\<close>, loads back with
  \<^verbatim>\<open>{"1": 250.5}\<close> and \<^verbatim>\<open>{"7": 40}\<close>. Name and voyage id are the same, but
  both dicts differ from the saved ones, and the lookups by int id that the condition
  table makes find 250.5 and 40 in the saved condition and the default 0 in the loaded
  one.
\<close>

theorem save_load_loses_int_keys:
  "load_condition_from_file (save_condition_to_file departure_condition) =
     Inr (departure_condition
            \<lparr>cond_id := None, tank_volumes_m3 := [(KStr ''1'', 250.5)],
             pen_loadings := [(KStr ''7'', 40)]\<rparr>)
   \<and> tank_volumes_m3 departure_condition = [(KInt 1, 250.5)]
   \<and> pen_loadings departure_condition = [(KInt 7, 40)]
   \<and> tank_volumes_m3 departure_condition \<noteq> [(KStr ''1'', 250.5)]
   \<and> pen_loadings departure_condition \<noteq> [(KStr ''7'', 40)]
   \<and> tank_vol (tank_volumes_m3 departure_condition) tank_1 = 250.5
   \<and> tank_vol [(KStr ''1'', 250.5)] tank_1 = 0
   \<and> pen_heads (pen_loadings departure_condition) pen_A1 = 40
   \<and> pen_heads [(KStr ''7'', 40)] pen_A1 = 0"
proof -
  have l: "load_condition_from_file (save_condition_to_file departure_condition) =
     Inr (departure_condition
            \<lparr>cond_id := None, tank_volumes_m3 := [(KStr ''1'', 250.5)],
             pen_loadings := [(KStr ''7'', 40)]\<rparr>)"
    unfolding save_then_load
    by (simp add: departure_condition_def dict_of_pairs_def json_key_def py_str_int_1
        py_str_int_7)
  have v: "tank_volumes_m3 departure_condition = [(KInt 1, 250.5)]"
    by (simp add: departure_condition_def)
  have p: "pen_loadings departure_condition = [(KInt 7, 40)]"
    by (simp add: departure_condition_def)
  have t: "id_or_minus1 (tank_id tank_1) = 1"
    by (simp add: tank_1_def id_or_minus1_def)
  have q: "id_or_minus1 (pen_id pen_A1) = 7"
    by (simp add: pen_A1_def id_or_minus1_def)
  show ?thesis
    unfolding l v p tank_vol_def pen_heads_def t q by simp
qed

subsection \<open>Free-surface correction\<close>

lemma free_surface_corrected_count:
  "free_surface_corrected tank_volumes tanks gm =
     gm - FREE_SURFACE_FACTOR * real (slack_count tank_volumes tanks)"
  unfolding slack_count_def
  by (induction tanks arbitrary: gm) (simp_all add: algebra_simps)

lemma slack_count_single:
  "slack_count tank_volumes [tank] = (if is_slack tank_volumes tank then 1 else 0)"
  by (simp add: slack_count_def)

text \<open>
  Claim C2. The effective GM is the raw GM (\<open>KM - KG\<close>) minus
  \<open>FREE_SURFACE_FACTOR\<close> times the number of tanks whose fill percentage is strictly
  between 0 and 100. A tank at exactly 0% or exactly 100% adds no penalty; a tank
  strictly between adds exactly one penalty of \<open>FREE_SURFACE_FACTOR\<close>, the constant
  0.5, whatever its fill.
\<close>

theorem free_surface_correction:
  "fst (compute_stability km kg tank_volumes tanks) = km - kg
   \<and> snd (compute_stability km kg tank_volumes tanks) =
       fst (compute_stability km kg tank_volumes tanks)
         - FREE_SURFACE_FACTOR * real (slack_count tank_volumes tanks)
   \<and> slack_count tank_volumes tanks =
       length (filter (\<lambda>t. 0 < fill_percent tank_volumes t \<and> fill_percent tank_volumes t < 100)
                 tanks)
   \<and> FREE_SURFACE_FACTOR = 0.5
   \<and> (fill_percent tank_volumes tank = 0 \<or> fill_percent tank_volumes tank = 100 \<longrightarrow>
        snd (compute_stability km kg tank_volumes (tank # tanks)) =
          snd (compute_stability km kg tank_volumes tanks))
   \<and> (0 < fill_percent tank_volumes tank \<and> fill_percent tank_volumes tank < 100 \<longrightarrow>
        snd (compute_stability km kg tank_volumes (tank # tanks)) =
          snd (compute_stability km kg tank_volumes tanks) - FREE_SURFACE_FACTOR)"
proof -
  have c: "slack_count tank_volumes (tank # tanks) =
      (if is_slack tank_volumes tank then 1 else 0) + slack_count tank_volumes tanks"
    by (simp add: slack_count_def)
  have s: "is_slack tank_volumes =
      (\<lambda>t. 0 < fill_percent tank_volumes t \<and> fill_percent tank_volumes t < 100)"
    by (simp add: is_slack_def fun_eq_iff)
  have n: "fill_percent tank_volumes tank = 0 \<or> fill_percent tank_volumes tank = 100 \<Longrightarrow>
      \<not> is_slack tank_volumes tank"
    by (auto simp: is_slack_def)
  have y: "0 < fill_percent tank_volumes tank \<and> fill_percent tank_volumes tank < 100 \<Longrightarrow>
      is_slack tank_volumes tank"
    by (simp add: is_slack_def)
  have a: "fst (compute_stability km kg tank_volumes tanks) = km - kg"
    by (simp add: compute_stability_def Let_def)
  have b: "\<And>ts. snd (compute_stability km kg tank_volumes ts) =
      km - kg - FREE_SURFACE_FACTOR * real (slack_count tank_volumes ts)"
    by (simp add: compute_stability_def Let_def free_surface_corrected_count)
  have d: "slack_count tank_volumes tanks =
       length (filter (\<lambda>t. 0 < fill_percent tank_volumes t \<and> fill_percent tank_volumes t < 100)
                 tanks)"
    unfolding slack_count_def s by simp
  have e: "FREE_SURFACE_FACTOR = 0.5"
    by (simp add: FREE_SURFACE_FACTOR_def)
  have f: "fill_percent tank_volumes tank = 0 \<or> fill_percent tank_volumes tank = 100 \<longrightarrow>
        snd (compute_stability km kg tank_volumes (tank # tanks)) =
          snd (compute_stability km kg tank_volumes tanks)"
    using n by (simp add: b c)
  have g: "0 < fill_percent tank_volumes tank \<and> fill_percent tank_volumes tank < 100 \<longrightarrow>
        snd (compute_stability km kg tank_volumes (tank # tanks)) =
          snd (compute_stability km kg tank_volumes tanks) - FREE_SURFACE_FACTOR"
    using y by (simp add: b c algebra_simps)
  show ?thesis
    using a b [of tanks] d e f g by (simp only: simp_thms)
qed

lemma fill_percent_tank_1: "fill_percent [(KInt 1, v)] tank_1 = v / 2"
  by (simp add: fill_percent_def supplied_volume_def tank_1_def)

theorem free_surface_correction_witness:
  "fill_percent [(KInt 1, 80)] tank_1 = 40
   \<and> snd (compute_stability 8.2 7 [(KInt 1, 80)] [tank_1, tank_1]) =
       snd (compute_stability 8.2 7 [(KInt 1, 80)] [tank_1]) - FREE_SURFACE_FACTOR
   \<and> fill_percent [(KInt 1, 200)] tank_1 = 100
   \<and> snd (compute_stability 8.2 7 [(KInt 1, 200)] [tank_1, tank_1]) =
       snd (compute_stability 8.2 7 [(KInt 1, 200)] [tank_1])
   \<and> fill_percent [(KInt 1, 0)] tank_1 = 0
   \<and> snd (compute_stability 8.2 7 [(KInt 1, 0)] [tank_1]) =
       snd (compute_stability 8.2 7 [(KInt 1, 0)] [])"
proof -
  note slack = free_surface_correction [of "8.2" 7 "[(KInt 1, 80)]" "[tank_1]" tank_1]
  note full = free_surface_correction [of "8.2" 7 "[(KInt 1, 200)]" "[tank_1]" tank_1]
  note empty = free_surface_correction [of "8.2" 7 "[(KInt 1, 0)]" "[]" tank_1]
  have p1: "fill_percent [(KInt 1, 80)] tank_1 = 40"
    by (simp add: fill_percent_tank_1)
  have p2: "fill_percent [(KInt 1, 200)] tank_1 = 100"
    by (simp add: fill_percent_tank_1)
  have p3: "fill_percent [(KInt 1, 0)] tank_1 = 0"
    by (simp add: fill_percent_tank_1)
  from slack p1 have r1: "snd (compute_stability 8.2 7 [(KInt 1, 80)] [tank_1, tank_1]) =
       snd (compute_stability 8.2 7 [(KInt 1, 80)] [tank_1]) - FREE_SURFACE_FACTOR"
    by simp
  from full p2 have r2: "snd (compute_stability 8.2 7 [(KInt 1, 200)] [tank_1, tank_1]) =
       snd (compute_stability 8.2 7 [(KInt 1, 200)] [tank_1])"
    by simp
  from empty p3 have r3: "snd (compute_stability 8.2 7 [(KInt 1, 0)] [tank_1]) =
       snd (compute_stability 8.2 7 [(KInt 1, 0)] [])"
    by simp
  from p1 p2 p3 r1 r2 r3 show ?thesis
    by (simp only: simp_thms)
qed

subsection \<open>Criteria lines\<close>













end
